theory Spec2Isabelle
  imports Main "HOL-Library.Multiset"
begin

section \<open>The tool-call fulfilment loop of django-ai-assistant\<close>

text \<open>
  This theory embeds \<^verbatim>\<open>src/django_ai_assistant/ai/function_calling.py\<close>: the class
  \<^verbatim>\<open>EventHandler\<close> with its methods \<^verbatim>\<open>__init__\<close>, \<^verbatim>\<open>on_event\<close>,
  \<^verbatim>\<open>handle_requires_action\<close> and \<^verbatim>\<open>submit_tool_outputs\<close>.

  The handler talks to three collaborators whose code is outside the file:
  \<^item> \<^verbatim>\<open>json.loads\<close> of the Python standard library, taken as a parameter \<open>loads\<close>
    that returns a value or raises;
  \<^item> \<^verbatim>\<open>call_tool\<close> of the module \<^verbatim>\<open>function_tool\<close>, taken as a parameter
    \<open>call_tool\<close> of the handler's functions, together with Python's \<^verbatim>\<open>str\<close> on
    what it returns (parameter \<open>str\<close>);
  \<^item> the OpenAI client, of which only the calls to
    \<^verbatim>\<open>submit_tool_outputs_stream\<close> are observed: the client is the log of these calls.
\<close>

subsection \<open>Values and errors\<close>

text \<open>
  What \<^verbatim>\<open>json.loads\<close> can return. A Python dict keeps its insertion order, so it is
  an association list. The handler never looks inside such a value; floating point
  numbers are left out.
\<close>

datatype pyval =
    PNone
  | PBool bool
  | PInt int
  | PStr string
  | PList "pyval list"
  | PDict "(string \<times> pyval) list"

text \<open>
  The exceptions that leave \<^verbatim>\<open>handle_requires_action\<close>. The source raises the plain
  \<^verbatim>\<open>Exception\<close> class with a message in two places (an unexpected call type, which
  the specification calls ProtocolViolationError, and arguments that do not parse, which
  it calls ArgumentDecodeError); a name missing from \<^verbatim>\<open>tools_by_name\<close> is Python's
  \<^verbatim>\<open>KeyError\<close> with the name as its argument (UnknownToolError in the specification).
  \<open>ToolRaised\<close> is an exception that escapes \<^verbatim>\<open>call_tool\<close>: the handler has no
  \<^verbatim>\<open>try\<close> around that call. The last three are what \<^verbatim>\<open>json.loads\<close> raises:
  \<^verbatim>\<open>json.JSONDecodeError\<close> on a string that is not a JSON document (its message is
  not read by the handler), and the exceptions that are not a \<^verbatim>\<open>JSONDecodeError\<close>: a
  plain \<^verbatim>\<open>ValueError\<close> (an integer literal beyond the interpreter's digit limit) and
  \<^verbatim>\<open>RecursionError\<close> (a document nested too deeply).
\<close>

datatype error =
    Exception string
  | KeyError string
  | ToolRaised string
  | JSONDecodeError
  | ValueError string
  | RecursionError string

subsection \<open>Records of the protocol\<close>

text \<open>
  A tool call of a "requires action" event: \<^verbatim>\<open>tool_call.id\<close>, \<^verbatim>\<open>tool_call.type\<close>,
  \<^verbatim>\<open>tool_call.function.name\<close> and \<^verbatim>\<open>tool_call.function.arguments\<close>.
\<close>

record ToolCall =
  tc_id :: string
  tc_type :: string
  function_name :: string
  function_arguments :: string

text \<open>
  A run as the handler reads it: \<^verbatim>\<open>id\<close>, \<^verbatim>\<open>thread_id\<close> and the list
  \<^verbatim>\<open>required_action.submit_tool_outputs.tool_calls\<close>.
\<close>

record Run =
  run_ident :: string
  run_thread_id :: string
  run_tool_calls :: "ToolCall list"

record Event =
  event :: string
  data :: Run

text \<open>
  The dictionary appended to \<^verbatim>\<open>output_str_list\<close> for each call, with its keys
  \<^verbatim>\<open>tool_call_id\<close> and \<^verbatim>\<open>output\<close> (here \<open>output_str\<close>).
\<close>

record ToolOutput =
  tool_call_id :: string
  output_str :: string

text \<open>
  One call of \<^verbatim>\<open>client.beta.threads.runs.submit_tool_outputs_stream\<close> with its keyword
  arguments \<^verbatim>\<open>thread_id\<close>, \<^verbatim>\<open>run_id\<close> and \<^verbatim>\<open>tool_outputs\<close>; the client is the
  list of the calls made so far, oldest first.
\<close>

record SubmitCall =
  sc_thread_id :: string
  sc_run_id :: string
  sc_tool_outputs :: "ToolOutput list"

record OpenAI =
  submit_calls :: "SubmitCall list"

subsection \<open>Tools\<close>

text \<open>
  Modelled from the spec: the class \<^verbatim>\<open>FunctionTool\<close> of the module
  \<^verbatim>\<open>function_tool\<close> is not among the sources. The handler reads only
  \<^verbatim>\<open>tool.metadata.name\<close>. The specification's ToolDescriptor has a name, an argument
  schema (an ordered set of named, typed, optionally defaulted parameters) and an
  invocation function from keyword arguments to a value; the function either raises
  (\<open>Inl\<close> with the exception's message) or returns (\<open>Inr\<close>).
\<close>

record Parameter =
  param_name :: string
  param_type :: string
  param_default :: "pyval option"

record 'a FunctionTool =
  metadata_name :: string
  args_schema :: "Parameter list"
  fn :: "pyval \<Rightarrow> string + 'a"

subsection \<open>The handler\<close>

text \<open>
  The fields of \<^verbatim>\<open>self\<close>: the client, the dictionary \<^verbatim>\<open>tools_by_name\<close>, and the
  property \<^verbatim>\<open>current_run\<close> that the SDK's base class maintains from the run events
  of the stream (taken as given).
\<close>

record 'a EventHandler =
  client :: OpenAI
  tools_by_name :: "string \<rightharpoonup> 'a FunctionTool"
  current_run :: Run

text \<open>
  \<^verbatim>\<open>{tool.metadata.name: tool for tool in tools}\<close>: the comprehension stores the
  tools from left to right, a later one overwriting an earlier one of the same name.
\<close>

definition tools_dict :: "'a FunctionTool list \<Rightarrow> (string \<rightharpoonup> 'a FunctionTool)" where
  "tools_dict tools = foldl (\<lambda>m tool. m(metadata_name tool \<mapsto> tool)) Map.empty tools"

text \<open>
  \<^verbatim>\<open>__init__(self, client, tools)\<close>. The third argument is the value the SDK will
  give to \<^verbatim>\<open>current_run\<close>.
\<close>

definition EventHandler_init ::
  "OpenAI \<Rightarrow> 'a FunctionTool list \<Rightarrow> Run \<Rightarrow> 'a EventHandler" where
  "EventHandler_init c tools r =
     \<lparr>client = c, tools_by_name = tools_dict tools, current_run = r\<rparr>"

text \<open>
  Lines 34 to 44, the \<^verbatim>\<open>try\<close> block: the empty string is the empty dictionary,
  anything else goes to \<^verbatim>\<open>json.loads\<close>, whose \<^verbatim>\<open>JSONDecodeError\<close> is raised again
  as an \<^verbatim>\<open>Exception\<close> whose message ends with the raw string. The \<^verbatim>\<open>except\<close>
  clause names \<^verbatim>\<open>json.JSONDecodeError\<close> only: any other exception of
  \<^verbatim>\<open>json.loads\<close> leaves the block as it is.
\<close>

definition decode_arguments :: "(string \<Rightarrow> error + pyval) \<Rightarrow> string \<Rightarrow> error + pyval" where
  "decode_arguments loads arguments =
     (if arguments = [] then Inr (PDict [])
      else (case loads arguments of
              Inl JSONDecodeError \<Rightarrow>
                Inl (Exception (''Failed to parse tool arguments: '' @ arguments))
            | Inl e \<Rightarrow> Inl e
            | Inr tool_kwargs \<Rightarrow> Inr tool_kwargs))"

text \<open>
  The body of the \<^verbatim>\<open>for\<close> loop, lines 31 to 47, for one call: the type check, the
  dictionary lookup, the decoding, \<^verbatim>\<open>call_tool\<close>, and the entry that is appended.
\<close>

definition tool_call_step ::
  "(string \<Rightarrow> error + pyval) \<Rightarrow> ('a FunctionTool \<Rightarrow> pyval \<Rightarrow> error + 'o) \<Rightarrow> ('o \<Rightarrow> string) \<Rightarrow>
   (string \<rightharpoonup> 'a FunctionTool) \<Rightarrow> ToolCall \<Rightarrow> error + ToolOutput" where
  "tool_call_step loads call_tool str tools tool_call =
     (if tc_type tool_call \<noteq> ''function''
      then Inl (Exception (''Unexpected tool_call.type='' @ tc_type tool_call))
      else (case tools (function_name tool_call) of
              None \<Rightarrow> Inl (KeyError (function_name tool_call))
            | Some tool \<Rightarrow>
                (case decode_arguments loads (function_arguments tool_call) of
                   Inl e \<Rightarrow> Inl e
                 | Inr tool_kwargs \<Rightarrow>
                     (case call_tool tool tool_kwargs of
                        Inl e \<Rightarrow> Inl e
                      | Inr out \<Rightarrow>
                          Inr \<lparr>tool_call_id = tc_id tool_call, output_str = str out\<rparr>))))"

text \<open>
  The \<^verbatim>\<open>for\<close> loop over the tool calls with its accumulator
  \<^verbatim>\<open>output_str_list\<close>: the first exception ends the loop.
\<close>

fun tool_calls_loop ::
  "(string \<Rightarrow> error + pyval) \<Rightarrow> ('a FunctionTool \<Rightarrow> pyval \<Rightarrow> error + 'o) \<Rightarrow> ('o \<Rightarrow> string) \<Rightarrow>
   (string \<rightharpoonup> 'a FunctionTool) \<Rightarrow> ToolCall list \<Rightarrow> ToolOutput list \<Rightarrow>
   error + ToolOutput list" where
  "tool_calls_loop loads call_tool str tools [] output_str_list = Inr output_str_list"
| "tool_calls_loop loads call_tool str tools (tool_call # rest) output_str_list =
     (case tool_call_step loads call_tool str tools tool_call of
        Inl e \<Rightarrow> Inl e
      | Inr entry \<Rightarrow>
          tool_calls_loop loads call_tool str tools rest (output_str_list @ [entry]))"

text \<open>
  \<^verbatim>\<open>submit_tool_outputs(self, tool_outputs, run_id)\<close>: one call of the client's
  \<^verbatim>\<open>submit_tool_outputs_stream\<close>, with the thread and run identifiers of
  \<^verbatim>\<open>self.current_run\<close> (the argument \<^verbatim>\<open>run_id\<close> is not used by the source). The
  stream that the SDK returns is drained by a fresh handler over the same tools; the
  events of that stream are later calls of \<open>on_event\<close> and are not part of this step.
\<close>

definition submit_tool_outputs ::
  "'a EventHandler \<Rightarrow> ToolOutput list \<Rightarrow> string \<Rightarrow> 'a EventHandler" where
  "submit_tool_outputs self tool_outputs run_id =
     self\<lparr>client := (client self)\<lparr>submit_calls := submit_calls (client self) @
       [\<lparr>sc_thread_id = run_thread_id (current_run self),
         sc_run_id = run_ident (current_run self),
         sc_tool_outputs = tool_outputs\<rparr>]\<rparr>\<rparr>"

text \<open>
  \<^verbatim>\<open>handle_requires_action(self, data, run_id)\<close>: the loop, then the single
  submission at line 50. An exception leaves the handler as it was.
\<close>

definition handle_requires_action ::
  "(string \<Rightarrow> error + pyval) \<Rightarrow> ('a FunctionTool \<Rightarrow> pyval \<Rightarrow> error + 'o) \<Rightarrow> ('o \<Rightarrow> string) \<Rightarrow>
   'a EventHandler \<Rightarrow> Run \<Rightarrow> string \<Rightarrow> (error + unit) \<times> 'a EventHandler" where
  "handle_requires_action loads call_tool str self run run_id =
     (case tool_calls_loop loads call_tool str (tools_by_name self) (run_tool_calls run) [] of
        Inl e \<Rightarrow> (Inl e, self)
      | Inr output_str_list \<Rightarrow> (Inr (), submit_tool_outputs self output_str_list run_id))"

text \<open>\<^verbatim>\<open>on_event(self, event)\<close>: only "requires action" events are acted upon.\<close>

definition on_event ::
  "(string \<Rightarrow> error + pyval) \<Rightarrow> ('a FunctionTool \<Rightarrow> pyval \<Rightarrow> error + 'o) \<Rightarrow> ('o \<Rightarrow> string) \<Rightarrow>
   'a EventHandler \<Rightarrow> Event \<Rightarrow> (error + unit) \<times> 'a EventHandler" where
  "on_event loads call_tool str self ev =
     (if event ev = ''thread.run.requires_action''
      then handle_requires_action loads call_tool str self (data ev) (run_ident (data ev))
      else (Inr (), self))"

subsection \<open>The tool invoker\<close>

text \<open>
  Modelled from the spec: the type of what \<^verbatim>\<open>call_tool\<close> returns is not among the
  sources. The specification's ToolOutcome is a success value in its display-string form,
  or a failure descriptor with a kind and a message.
\<close>

datatype failure_kind = ToolExecutionError

datatype ToolOutcome =
    Success string
  | Failure failure_kind string

text \<open>
  Modelled from the spec: the function \<^verbatim>\<open>call_tool\<close> of the module
  \<^verbatim>\<open>function_tool\<close> is not among the sources. The specification's ToolInvoker calls
  the descriptor's function with the decoded keyword arguments; any exception raised by
  the function is caught and converted to a failure outcome of kind ToolExecutionError
  with the exception's message; a returned value is converted to its display string
  (\<open>display\<close>) at this boundary. It never raises.
\<close>

definition call_tool ::
  "('a \<Rightarrow> string) \<Rightarrow> 'a FunctionTool \<Rightarrow> pyval \<Rightarrow> error + ToolOutcome" where
  "call_tool display tool tool_kwargs =
     (case fn tool tool_kwargs of
        Inl message \<Rightarrow> Inr (Failure ToolExecutionError message)
      | Inr v \<Rightarrow> Inr (Success (display v)))"

text \<open>
  Modelled from the spec: \<^verbatim>\<open>str\<close> on an outcome. A success is reported by its display
  string, a failure by its message (the failure is "reported as that call's output text").
\<close>

fun ToolOutcome_str :: "ToolOutcome \<Rightarrow> string" where
  "ToolOutcome_str (Success text) = text"
| "ToolOutcome_str (Failure kind message) = message"

subsection \<open>Concrete inputs\<close>

text \<open>
  The inputs of the closed examples below. \<open>json_loads_sample\<close> answers as
  \<^verbatim>\<open>json.loads\<close> does on the five documents it lists and on a string of more than
  4300 digits \<^verbatim>\<open>1\<close>, an integer literal beyond the interpreter's default limit, for
  which \<^verbatim>\<open>json.loads\<close> raises a plain \<^verbatim>\<open>ValueError\<close> (its message is shortened
  here). On any other string it answers as \<^verbatim>\<open>json.loads\<close> does on a string that is
  not JSON, and the examples use it there only on the empty string and on
  \<^verbatim>\<open>{bad\<close>.
\<close>

definition json_loads_sample :: "string \<Rightarrow> error + pyval" where
  \<open>json_loads_sample s =
     (if list_all (\<lambda>c. c = CHR ''1'') s \<and> 4300 < length s
        then Inl (ValueError ''Exceeds the limit (4300 digits) for integer string conversion'')
      else if s = ''{"location": "Recife"}'' then Inr (PDict [(''location'', PStr ''Recife'')])
      else if s = ''{"location": "Recife", "unit": "C"}''
        then Inr (PDict [(''location'', PStr ''Recife''), (''unit'', PStr ''C'')])
      else if s = ''5'' then Inr (PInt 5)
      else if s = ''[1,2]'' then Inr (PList [PInt 1, PInt 2])
      else if s = ''null'' then Inr PNone
      else Inl JSONDecodeError)\<close>

text \<open>
  The tool of the test suite's \<^verbatim>\<open>TemperatureAssistant\<close>, with one declared parameter
  and a constant result; a second tool of the same name; and a tool whose function raises.
\<close>

definition fetch_current_temperature :: "string FunctionTool" where
  "fetch_current_temperature =
     \<lparr>metadata_name = ''fetch_current_temperature'',
      args_schema = [\<lparr>param_name = ''location'', param_type = ''str'', param_default = None\<rparr>],
      fn = (\<lambda>tool_kwargs. Inr ''32 degrees Celsius'')\<rparr>"

definition fetch_current_temperature_again :: "string FunctionTool" where
  "fetch_current_temperature_again =
     \<lparr>metadata_name = ''fetch_current_temperature'',
      args_schema = [],
      fn = (\<lambda>tool_kwargs. Inr ''35 degrees Celsius'')\<rparr>"

definition broken_tool :: "string FunctionTool" where
  "broken_tool =
     \<lparr>metadata_name = ''broken_tool'',
      args_schema = [],
      fn = (\<lambda>tool_kwargs. Inl ''upstream unavailable'')\<rparr>"

definition sample_run :: "ToolCall list \<Rightarrow> Run" where
  "sample_run tool_calls =
     \<lparr>run_ident = ''run_1'', run_thread_id = ''thread_1'', run_tool_calls = tool_calls\<rparr>"

definition sample_handler :: "string EventHandler" where
  "sample_handler =
     EventHandler_init \<lparr>submit_calls = []\<rparr> [fetch_current_temperature, broken_tool]
       (sample_run [])"

definition function_call :: "string \<Rightarrow> string \<Rightarrow> string \<Rightarrow> ToolCall" where
  "function_call call_id name arguments =
     \<lparr>tc_id = call_id, tc_type = ''function'', function_name = name,
      function_arguments = arguments\<rparr>"

text \<open>
  Two stand-ins for \<^verbatim>\<open>call_tool\<close>: one returns the keyword arguments it was given,
  so that they can be read off the output (through \<open>kwargs_names\<close>, the names of the
  fields it received); the other lets the exception of the tool's function escape.
\<close>

definition call_tool_echo :: "'a FunctionTool \<Rightarrow> pyval \<Rightarrow> error + pyval" where
  "call_tool_echo tool tool_kwargs = Inr tool_kwargs"

fun kwargs_names :: "pyval \<Rightarrow> string" where
  "kwargs_names (PDict kvs) = concat (map (\<lambda>kv. fst kv @ '';'') kvs)"
| "kwargs_names v = []"

definition call_tool_uncaught :: "string FunctionTool \<Rightarrow> pyval \<Rightarrow> error + string" where
  "call_tool_uncaught tool tool_kwargs =
     (case fn tool tool_kwargs of Inl message \<Rightarrow> Inl (ToolRaised message) | Inr v \<Rightarrow> Inr v)"

text \<open>
  Batches of tool calls. \<open>scenario_c_calls\<close> is the specification's scenario C: one call
  whose tool returns and one whose tool raises.
\<close>

definition other_call :: "string \<Rightarrow> string \<Rightarrow> ToolCall" where
  "other_call call_id kind =
     \<lparr>tc_id = call_id, tc_type = kind, function_name = [], function_arguments = []\<rparr>"

definition scenario_c_calls :: "ToolCall list" where
  \<open>scenario_c_calls =
     [function_call ''call_1'' ''fetch_current_temperature'' ''{"location": "Recife"}'',
      function_call ''call_2'' ''broken_tool'' []]\<close>

definition malformed_then_unknown_calls :: "ToolCall list" where
  "malformed_then_unknown_calls =
     [function_call ''call_1'' ''fetch_current_temperature'' ''{bad'',
      function_call ''call_2'' ''nonexistent_tool'' []]"

definition unknown_tool_calls :: "ToolCall list" where
  "unknown_tool_calls =
     [function_call ''call_1'' ''fetch_current_temperature'' [],
      function_call ''call_2'' ''nonexistent_tool'' [],
      function_call ''call_3'' ''broken_tool'' []]"

definition unknown_then_other_kind_calls :: "ToolCall list" where
  "unknown_then_other_kind_calls =
     [function_call ''call_1'' ''nonexistent_tool'' [],
      other_call ''call_2'' ''code_interpreter'']"

definition other_kind_calls :: "ToolCall list" where
  "other_kind_calls =
     [function_call ''call_1'' ''fetch_current_temperature'' [],
      other_call ''call_2'' ''code_interpreter'',
      function_call ''call_3'' ''broken_tool'' []]"

definition raising_then_malformed_calls :: "ToolCall list" where
  "raising_then_malformed_calls =
     [function_call ''call_1'' ''broken_tool'' [],
      function_call ''call_2'' ''fetch_current_temperature'' ''{bad'']"

section \<open>Properties of the loop\<close>

lemma tool_calls_loop_acc:
  "tool_calls_loop L C S T cs acc =
     (case tool_calls_loop L C S T cs [] of Inl e \<Rightarrow> Inl e | Inr outs \<Rightarrow> Inr (acc @ outs))"
proof (induction cs arbitrary: acc)
  case Nil
  show ?case by simp
next
  case (Cons c cs)
  show ?case
  proof (cases "tool_call_step L C S T c")
    case (Inl e)
    then show ?thesis by simp
  next
    case (Inr entry)
    have lhs: "tool_calls_loop L C S T (c # cs) acc =
        (case tool_calls_loop L C S T cs [] of
           Inl e \<Rightarrow> Inl e | Inr outs \<Rightarrow> Inr (acc @ entry # outs))"
      using Inr Cons.IH [of "acc @ [entry]"] by (simp split: sum.splits)
    have rhs: "tool_calls_loop L C S T (c # cs) [] =
        (case tool_calls_loop L C S T cs [] of
           Inl e \<Rightarrow> Inl e | Inr outs \<Rightarrow> Inr (entry # outs))"
      using Inr Cons.IH [of "[entry]"] by (simp split: sum.splits)
    show ?thesis
      unfolding lhs rhs by (simp split: sum.splits)
  qed
qed

lemma tool_calls_loop_Cons:
  "tool_calls_loop L C S T (c # cs) [] =
     (case tool_call_step L C S T c of
        Inl e \<Rightarrow> Inl e
      | Inr entry \<Rightarrow>
          (case tool_calls_loop L C S T cs [] of
             Inl e \<Rightarrow> Inl e | Inr outs \<Rightarrow> Inr (entry # outs)))"
  using tool_calls_loop_acc [of L C S T cs "[entry]" for entry]
  by (simp split: sum.splits)

lemma tool_calls_loop_append:
  "tool_calls_loop L C S T (xs @ ys) [] =
     (case tool_calls_loop L C S T xs [] of
        Inl e \<Rightarrow> Inl e
      | Inr outs1 \<Rightarrow>
          (case tool_calls_loop L C S T ys [] of
             Inl e \<Rightarrow> Inl e | Inr outs2 \<Rightarrow> Inr (outs1 @ outs2)))"
proof (induction xs)
  case Nil
  show ?case by (simp split: sum.splits)
next
  case (Cons x xs)
  show ?case
    unfolding append_Cons tool_calls_loop_Cons Cons.IH
    by (simp split: sum.splits)
qed

lemma tool_calls_loop_Inr_iff:
  "tool_calls_loop L C S T cs [] = Inr outs \<longleftrightarrow>
     list_all2 (\<lambda>c entry. tool_call_step L C S T c = Inr entry) cs outs"
proof (induction cs arbitrary: outs)
  case Nil
  show ?case by auto
next
  case (Cons c cs)
  show ?case
    unfolding tool_calls_loop_Cons
    by (auto simp: Cons.IH [symmetric] list_all2_Cons1 split: sum.splits)
qed

lemma tool_calls_loop_Inl_iff:
  "tool_calls_loop L C S T cs [] = Inl e \<longleftrightarrow>
     (\<exists>pre c post. cs = pre @ c # post \<and>
        (\<forall>p\<in>set pre. \<exists>entry. tool_call_step L C S T p = Inr entry) \<and>
        tool_call_step L C S T c = Inl e)"
proof (induction cs)
  case Nil
  show ?case by simp
next
  case (Cons c cs)
  show ?case
  proof (cases "tool_call_step L C S T c")
    case (Inl e')
    show ?thesis
    proof
      assume "tool_calls_loop L C S T (c # cs) [] = Inl e"
      then have "e' = e" using Inl by simp
      then have "c # cs = [] @ c # cs \<and>
        (\<forall>p\<in>set []. \<exists>entry. tool_call_step L C S T p = Inr entry) \<and>
        tool_call_step L C S T c = Inl e" using Inl by simp
      then show "\<exists>pre c' post. c # cs = pre @ c' # post \<and>
        (\<forall>p\<in>set pre. \<exists>entry. tool_call_step L C S T p = Inr entry) \<and>
        tool_call_step L C S T c' = Inl e" by blast
    next
      assume "\<exists>pre c' post. c # cs = pre @ c' # post \<and>
        (\<forall>p\<in>set pre. \<exists>entry. tool_call_step L C S T p = Inr entry) \<and>
        tool_call_step L C S T c' = Inl e"
      then obtain pre c' post where d: "c # cs = pre @ c' # post"
        and p: "\<forall>p\<in>set pre. \<exists>entry. tool_call_step L C S T p = Inr entry"
        and f: "tool_call_step L C S T c' = Inl e" by blast
      have "pre = []"
      proof (cases pre)
        case Nil then show ?thesis .
      next
        case (Cons a as)
        then have "a = c" using d by simp
        then show ?thesis using p Cons Inl by auto
      qed
      then have "c' = c" using d by simp
      then show "tool_calls_loop L C S T (c # cs) [] = Inl e" using f by simp
    qed
  next
    case (Inr entry)
    have step: "tool_calls_loop L C S T (c # cs) [] = Inl e \<longleftrightarrow>
        tool_calls_loop L C S T cs [] = Inl e"
      unfolding tool_calls_loop_Cons using Inr by (simp split: sum.splits)
    show ?thesis
    proof
      assume "tool_calls_loop L C S T (c # cs) [] = Inl e"
      then obtain pre c' post where d: "cs = pre @ c' # post"
        and p: "\<forall>p\<in>set pre. \<exists>entry. tool_call_step L C S T p = Inr entry"
        and f: "tool_call_step L C S T c' = Inl e"
        using step Cons.IH by blast
      have "c # cs = (c # pre) @ c' # post \<and>
        (\<forall>p\<in>set (c # pre). \<exists>entry. tool_call_step L C S T p = Inr entry) \<and>
        tool_call_step L C S T c' = Inl e"
        using d p f Inr by simp
      then show "\<exists>pre c' post. c # cs = pre @ c' # post \<and>
        (\<forall>p\<in>set pre. \<exists>entry. tool_call_step L C S T p = Inr entry) \<and>
        tool_call_step L C S T c' = Inl e" by blast
    next
      assume "\<exists>pre c' post. c # cs = pre @ c' # post \<and>
        (\<forall>p\<in>set pre. \<exists>entry. tool_call_step L C S T p = Inr entry) \<and>
        tool_call_step L C S T c' = Inl e"
      then obtain pre c' post where d: "c # cs = pre @ c' # post"
        and p: "\<forall>p\<in>set pre. \<exists>entry. tool_call_step L C S T p = Inr entry"
        and f: "tool_call_step L C S T c' = Inl e" by blast
      obtain pre' where pre: "pre = c # pre'"
      proof (cases pre)
        case Nil
        then have "c' = c" using d by simp
        then show ?thesis using f Inr by simp
      next
        case (Cons a as)
        then have "a = c" using d by simp
        then show ?thesis using Cons that by simp
      qed
      then have "cs = pre' @ c' # post" using d by simp
      moreover have "\<forall>p\<in>set pre'. \<exists>entry. tool_call_step L C S T p = Inr entry"
        using p pre by simp
      ultimately have "tool_calls_loop L C S T cs [] = Inl e"
        using f Cons.IH by blast
      then show "tool_calls_loop L C S T (c # cs) [] = Inl e" using step by simp
    qed
  qed
qed

lemma tool_call_step_id:
  "tool_call_step L C S T c = Inr entry \<Longrightarrow> tool_call_id entry = tc_id c"
  by (auto simp: tool_call_step_def split: if_splits option.splits sum.splits)

lemma tool_calls_loop_ids:
  "tool_calls_loop L C S T cs [] = Inr outs \<Longrightarrow> map tool_call_id outs = map tc_id cs"
proof -
  assume "tool_calls_loop L C S T cs [] = Inr outs"
  then have "list_all2 (\<lambda>c entry. tool_call_step L C S T c = Inr entry) cs outs"
    by (simp add: tool_calls_loop_Inr_iff)
  then show ?thesis
    by (induction rule: list_all2_induct) (simp_all add: tool_call_step_id)
qed

lemma tool_calls_loop_total:
  assumes "\<forall>c\<in>set cs. \<exists>entry. tool_call_step L C S T c = Inr entry"
  shows "\<exists>outs. tool_calls_loop L C S T cs [] = Inr outs"
proof (cases "tool_calls_loop L C S T cs []")
  case (Inl e)
  then obtain pre c post where "cs = pre @ c # post" and "tool_call_step L C S T c = Inl e"
    unfolding tool_calls_loop_Inl_iff by blast
  then show ?thesis using assms by auto
next
  case (Inr outs)
  then show ?thesis by blast
qed

lemma handle_requires_action_Inr:
  "tool_calls_loop L C S (tools_by_name self) (run_tool_calls run) [] = Inr outs \<Longrightarrow>
   handle_requires_action L C S self run rid = (Inr (), submit_tool_outputs self outs rid)"
  by (simp add: handle_requires_action_def)

lemma handle_requires_action_Inl:
  "tool_calls_loop L C S (tools_by_name self) (run_tool_calls run) [] = Inl e \<Longrightarrow>
   handle_requires_action L C S self run rid = (Inl e, self)"
  by (simp add: handle_requires_action_def)

lemma submit_tool_outputs_log:
  "submit_calls (client (submit_tool_outputs self outs rid)) =
     submit_calls (client self) @
       [\<lparr>sc_thread_id = run_thread_id (current_run self),
         sc_run_id = run_ident (current_run self),
         sc_tool_outputs = outs\<rparr>]"
  by (simp add: submit_tool_outputs_def)

lemma on_event_requires_action:
  "event ev = ''thread.run.requires_action'' \<Longrightarrow>
   on_event L C S self ev = handle_requires_action L C S self (data ev) (run_ident (data ev))"
  by (simp add: on_event_def)

lemma on_event_other:
  "event ev \<noteq> ''thread.run.requires_action'' \<Longrightarrow> on_event L C S self ev = (Inr (), self)"
  by (simp add: on_event_def)

lemma tool_call_step_decoded:
  assumes "tc_type c = ''function''"
    and "T (function_name c) = Some tool"
    and "decode_arguments L (function_arguments c) = Inr kw"
  shows "tool_call_step L C S T c =
     (case C tool kw of
        Inl e \<Rightarrow> Inl e
      | Inr r \<Rightarrow> Inr \<lparr>tool_call_id = tc_id c, output_str = S r\<rparr>)"
  using assms by (simp add: tool_call_step_def)


lemma tool_calls_loop_first_failure:
  assumes "\<forall>p\<in>set pre. \<exists>entry. tool_call_step L C S T p = Inr entry"
    and "tool_call_step L C S T c = Inl e"
  shows "tool_calls_loop L C S T (pre @ c # post) [] = Inl e"
  unfolding tool_calls_loop_Inl_iff
  by (rule exI [of _ pre], rule exI [of _ c], rule exI [of _ post]) (simp add: assms)

lemma tool_calls_loop_some_failure:
  "c \<in> set cs \<Longrightarrow> tool_call_step L C S T c = Inl e \<Longrightarrow>
   \<exists>e'. tool_calls_loop L C S T cs [] = Inl e'"
  by (induction cs)
    (auto simp: tool_calls_loop_Cons simp del: tool_calls_loop.simps split: sum.splits)

lemma tool_call_step_unknown:
  assumes "T (function_name c) = None"
  shows "tool_call_step L C S T c =
     (if tc_type c \<noteq> ''function''
      then Inl (Exception (''Unexpected tool_call.type='' @ tc_type c))
      else Inl (KeyError (function_name c)))"
  using assms by (simp add: tool_call_step_def)

lemma tool_call_step_other_kind:
  assumes "tc_type c \<noteq> ''function''"
  shows "tool_call_step L C S T c = Inl (Exception (''Unexpected tool_call.type='' @ tc_type c))"
  using assms by (simp add: tool_call_step_def)

lemma decode_arguments_malformed:
  assumes "arguments \<noteq> []" and "loads arguments = Inl JSONDecodeError"
  shows "decode_arguments loads arguments =
     Inl (Exception (''Failed to parse tool arguments: '' @ arguments))"
  using assms by (simp add: decode_arguments_def)

lemma decode_arguments_parsed:
  assumes "arguments \<noteq> []" and "loads arguments = Inr v"
  shows "decode_arguments loads arguments = Inr v"
  using assms by (simp add: decode_arguments_def)

lemma decode_arguments_other_exception:
  assumes "arguments \<noteq> []" and "loads arguments = Inl e" and "e \<noteq> JSONDecodeError"
  shows "decode_arguments loads arguments = Inl e"
  using assms by (cases e) (simp_all add: decode_arguments_def)

lemma decode_arguments_empty:
  "decode_arguments loads [] = Inr (PDict [])"
  by (simp add: decode_arguments_def)

lemma tool_call_step_undecoded:
  assumes "tc_type c = ''function''"
    and "T (function_name c) = Some tool"
    and "decode_arguments L (function_arguments c) = Inl e"
  shows "tool_call_step L C S T c = Inl e"
  using assms by (simp add: tool_call_step_def)

lemma foldl_tools_lookup:
  "foldl (\<lambda>m tool. m(metadata_name tool \<mapsto> tool)) m0 tools name =
     (case find (\<lambda>tool. metadata_name tool = name) (rev tools) of
        None \<Rightarrow> m0 name
      | Some tool \<Rightarrow> Some tool)"
  by (induction tools rule: rev_induct) simp_all

lemma tools_dict_lookup:
  "tools_dict tools name = find (\<lambda>tool. metadata_name tool = name) (rev tools)"
  unfolding tools_dict_def foldl_tools_lookup by (simp split: option.splits)

lemma call_tool_raising:
  assumes "fn tool kw = Inl message"
  shows "call_tool display tool kw = Inr (Failure ToolExecutionError message)"
  using assms by (simp add: call_tool_def)

lemma call_tool_returns:
  "\<exists>outcome. call_tool display tool kw = Inr outcome"
  by (simp add: call_tool_def split: sum.splits)

lemma escaping_exception_aborts_batch:
  assumes "run_tool_calls run = pre @ c # post"
    and "\<forall>p\<in>set pre. \<exists>entry.
      tool_call_step loads invoke str (tools_by_name self) p = Inr entry"
    and "tc_type c = ''function''"
    and "tools_by_name self (function_name c) = Some tool"
    and "decode_arguments loads (function_arguments c) = Inr kw"
    and "invoke tool kw = Inl e"
  shows "handle_requires_action loads invoke str self run run_id = (Inl e, self)"
proof -
  have "tool_call_step loads invoke str (tools_by_name self) c = Inl e"
    using tool_call_step_decoded
        [where T = "tools_by_name self" and C = invoke and S = str, OF assms(3,4,5)] assms(6)
    by simp
  with assms(2)
  have "tool_calls_loop loads invoke str (tools_by_name self) (pre @ c # post) [] = Inl e"
    by (rule tool_calls_loop_first_failure)
  then show ?thesis
    using assms(1) by (simp add: handle_requires_action_Inl)
qed

subsection \<open>Evaluating the concrete inputs\<close>

lemma sample_tools:
  "tools_by_name sample_handler ''fetch_current_temperature'' = Some fetch_current_temperature"
  "tools_by_name sample_handler ''broken_tool'' = Some broken_tool"
  "tools_by_name sample_handler ''nonexistent_tool'' = None"
  by (simp_all add: sample_handler_def EventHandler_init_def tools_dict_def
      fetch_current_temperature_def broken_tool_def)

lemma sample_decode:
  \<open>decode_arguments json_loads_sample ''{"location": "Recife"}'' =
     Inr (PDict [(''location'', PStr ''Recife'')])\<close>
  \<open>decode_arguments json_loads_sample ''{"location": "Recife", "unit": "C"}'' =
     Inr (PDict [(''location'', PStr ''Recife''), (''unit'', PStr ''C'')])\<close>
  \<open>decode_arguments json_loads_sample ''5'' = Inr (PInt 5)\<close>
  \<open>decode_arguments json_loads_sample [] = Inr (PDict [])\<close>
  \<open>decode_arguments json_loads_sample ''{bad'' =
     Inl (Exception ''Failed to parse tool arguments: {bad'')\<close>
  by (simp_all add: decode_arguments_def json_loads_sample_def)

lemma sample_call_tool:
  "call_tool id fetch_current_temperature kw = Inr (Success ''32 degrees Celsius'')"
  "call_tool id broken_tool kw = Inr (Failure ToolExecutionError ''upstream unavailable'')"
  by (simp_all add: call_tool_def fetch_current_temperature_def broken_tool_def)

lemma function_call_sel:
  "tc_id (function_call i n a) = i"
  "tc_type (function_call i n a) = ''function''"
  "function_name (function_call i n a) = n"
  "function_arguments (function_call i n a) = a"
  by (simp_all add: function_call_def)

lemma other_call_sel:
  "tc_id (other_call i k) = i"
  "tc_type (other_call i k) = k"
  by (simp_all add: other_call_def)

lemma sample_run_sel:
  "run_tool_calls (sample_run cs) = cs"
  by (simp add: sample_run_def)

lemma sample_steps:
  \<open>tool_call_step json_loads_sample (call_tool id) ToolOutcome_str (tools_by_name sample_handler)
     (function_call i ''fetch_current_temperature'' ''{"location": "Recife"}'') =
     Inr \<lparr>tool_call_id = i, output_str = ''32 degrees Celsius''\<rparr>\<close>
  \<open>tool_call_step json_loads_sample (call_tool id) ToolOutcome_str (tools_by_name sample_handler)
     (function_call i ''fetch_current_temperature'' []) =
     Inr \<lparr>tool_call_id = i, output_str = ''32 degrees Celsius''\<rparr>\<close>
  \<open>tool_call_step json_loads_sample (call_tool id) ToolOutcome_str (tools_by_name sample_handler)
     (function_call i ''broken_tool'' []) =
     Inr \<lparr>tool_call_id = i, output_str = ''upstream unavailable''\<rparr>\<close>
  by (simp_all add: tool_call_step_def function_call_sel sample_tools sample_decode
      sample_call_tool)

section \<open>The claims\<close>

text \<open>
  Claim C1. A batch of N pending tool calls that is processed to completion (every call
  is of kind "function", its tool name resolves, its argument payload decodes, and the
  invocation through \<^verbatim>\<open>call_tool\<close> returns) is submitted in one call whose
  \<^verbatim>\<open>tool_outputs\<close> has exactly N entries; their call ids are the call ids of the
  batch in the order received, hence a permutation of them with no drop and no duplicate.
\<close>

theorem submission_ids_match_batch:
  assumes "\<forall>c\<in>set (run_tool_calls run).
      tc_type c = ''function'' \<and>
      (\<exists>tool kw r. tools_by_name self (function_name c) = Some tool \<and>
         decode_arguments loads (function_arguments c) = Inr kw \<and>
         invoke tool kw = Inr r)"
  shows "\<exists>outs.
      handle_requires_action loads invoke str self run run_id =
        (Inr (), submit_tool_outputs self outs run_id) \<and>
      submit_calls (client (submit_tool_outputs self outs run_id)) =
        submit_calls (client self) @
          [\<lparr>sc_thread_id = run_thread_id (current_run self),
            sc_run_id = run_ident (current_run self),
            sc_tool_outputs = outs\<rparr>] \<and>
      length outs = length (run_tool_calls run) \<and>
      map tool_call_id outs = map tc_id (run_tool_calls run) \<and>
      mset (map tool_call_id outs) = mset (map tc_id (run_tool_calls run))"
proof -
  have "\<forall>c\<in>set (run_tool_calls run).
      \<exists>entry. tool_call_step loads invoke str (tools_by_name self) c = Inr entry"
  proof
    fix c
    assume "c \<in> set (run_tool_calls run)"
    then obtain tool kw r where "tc_type c = ''function''"
      and "tools_by_name self (function_name c) = Some tool"
      and "decode_arguments loads (function_arguments c) = Inr kw"
      and "invoke tool kw = Inr r"
      using assms by blast
    then show "\<exists>entry. tool_call_step loads invoke str (tools_by_name self) c = Inr entry"
      by (simp add: tool_call_step_decoded)
  qed
  then obtain outs where
    loop: "tool_calls_loop loads invoke str (tools_by_name self) (run_tool_calls run) [] = Inr outs"
    using tool_calls_loop_total by blast
  have ids: "map tool_call_id outs = map tc_id (run_tool_calls run)"
    using loop by (rule tool_calls_loop_ids)
  have len: "length outs = length (run_tool_calls run)"
    using ids by (metis length_map)
  show ?thesis
    using handle_requires_action_Inr [OF loop] ids len submit_tool_outputs_log
    by (intro exI [of _ outs]) simp
qed

theorem submission_ids_match_batch_witness:
  "\<exists>outs.
     handle_requires_action json_loads_sample (call_tool id) ToolOutcome_str sample_handler
       (sample_run scenario_c_calls) ''run_1'' =
       (Inr (), submit_tool_outputs sample_handler outs ''run_1'') \<and>
     length outs = 2 \<and>
     map tool_call_id outs = [''call_1'', ''call_2'']"
proof -
  have h: "\<forall>c\<in>set (run_tool_calls (sample_run scenario_c_calls)).
      tc_type c = ''function'' \<and>
      (\<exists>tool kw r. tools_by_name sample_handler (function_name c) = Some tool \<and>
         decode_arguments json_loads_sample (function_arguments c) = Inr kw \<and>
         call_tool id tool kw = Inr r)"
    by (simp add: sample_run_sel scenario_c_calls_def function_call_sel sample_tools
        sample_decode sample_call_tool)
  from submission_ids_match_batch [OF h, of ToolOutcome_str "''run_1''"]
  obtain outs where a:
    "handle_requires_action json_loads_sample (call_tool id) ToolOutcome_str sample_handler
       (sample_run scenario_c_calls) ''run_1'' =
       (Inr (), submit_tool_outputs sample_handler outs ''run_1'')"
    and b: "length outs = length (run_tool_calls (sample_run scenario_c_calls))"
    and c: "map tool_call_id outs = map tc_id (run_tool_calls (sample_run scenario_c_calls))"
    by (elim exE conjE) (rule that)
  have b': "length outs = 2"
    using b by (simp add: sample_run_sel scenario_c_calls_def)
  have c': "map tool_call_id outs = [''call_1'', ''call_2'']"
    using c by (simp add: sample_run_sel scenario_c_calls_def function_call_sel)
  show ?thesis
    by (rule exI [of _ outs]) (simp only: a b' c' simp_thms)
qed

text \<open>
  Claim C3, as the specification states it, does not hold: a batch that contains a call
  to a tool missing from \<^verbatim>\<open>tools_by_name\<close> need not fail with the lookup's
  \<^verbatim>\<open>KeyError\<close> (the specification's UnknownToolError). The loop stops at the first
  call that raises, so an earlier call with malformed arguments decides the error.
\<close>

theorem unknown_tool_error_counterexample:
  "tools_by_name sample_handler ''nonexistent_tool'' = None \<and>
   function_name (malformed_then_unknown_calls ! 1) = ''nonexistent_tool'' \<and>
   handle_requires_action json_loads_sample (call_tool id) ToolOutcome_str sample_handler
     (sample_run malformed_then_unknown_calls) ''run_1'' =
     (Inl (Exception ''Failed to parse tool arguments: {bad''), sample_handler)"
proof -
  have "tool_call_step json_loads_sample (call_tool id) ToolOutcome_str
      (tools_by_name sample_handler)
      (function_call ''call_1'' ''fetch_current_temperature'' ''{bad'') =
      Inl (Exception ''Failed to parse tool arguments: {bad'')"
    by (simp add: tool_call_step_def function_call_sel sample_tools sample_decode)
  then have "tool_calls_loop json_loads_sample (call_tool id) ToolOutcome_str
      (tools_by_name sample_handler) malformed_then_unknown_calls [] =
      Inl (Exception ''Failed to parse tool arguments: {bad'')"
    by (simp add: malformed_then_unknown_calls_def)
  then have "handle_requires_action json_loads_sample (call_tool id) ToolOutcome_str
      sample_handler (sample_run malformed_then_unknown_calls) ''run_1'' =
      (Inl (Exception ''Failed to parse tool arguments: {bad''), sample_handler)"
    by (simp add: handle_requires_action_def sample_run_sel)
  moreover have "function_name (malformed_then_unknown_calls ! 1) = ''nonexistent_tool''"
    by (simp add: malformed_then_unknown_calls_def function_call_sel)
  ultimately show ?thesis by (simp add: sample_tools)
qed

text \<open>
  Claim C3, amended. A batch that contains a call whose tool name is absent from
  \<^verbatim>\<open>tools_by_name\<close> always fails, and the handler, with its client's log of
  submissions, is left as it was: no resume call is issued. The failure is the
  \<^verbatim>\<open>KeyError\<close> on that tool name when the call is of kind "function" and every call
  before it in the batch is processed without raising.
\<close>

theorem unknown_tool_aborts_batch:
  assumes "run_tool_calls run = pre @ c # post"
    and "tools_by_name self (function_name c) = None"
  shows "(\<exists>e. handle_requires_action loads invoke str self run run_id = (Inl e, self)) \<and>
         (tc_type c = ''function'' \<and>
          (\<forall>p\<in>set pre. \<exists>entry.
              tool_call_step loads invoke str (tools_by_name self) p = Inr entry) \<longrightarrow>
          handle_requires_action loads invoke str self run run_id =
            (Inl (KeyError (function_name c)), self))"
proof (intro conjI impI)
  have u: "tool_call_step loads invoke str (tools_by_name self) c =
     (if tc_type c \<noteq> ''function''
      then Inl (Exception (''Unexpected tool_call.type='' @ tc_type c))
      else Inl (KeyError (function_name c)))"
    using assms(2) by (rule tool_call_step_unknown)
  then obtain e where e: "tool_call_step loads invoke str (tools_by_name self) c = Inl e"
    by (cases "tc_type c = ''function''") simp_all
  have "c \<in> set (run_tool_calls run)" using assms(1) by simp
  from tool_calls_loop_some_failure [OF this e]
  obtain e' where
    "tool_calls_loop loads invoke str (tools_by_name self) (run_tool_calls run) [] = Inl e'" ..
  then have "handle_requires_action loads invoke str self run run_id = (Inl e', self)"
    by (rule handle_requires_action_Inl)
  then show "\<exists>e. handle_requires_action loads invoke str self run run_id = (Inl e, self)" ..
next
  assume a: "tc_type c = ''function'' \<and>
    (\<forall>p\<in>set pre. \<exists>entry. tool_call_step loads invoke str (tools_by_name self) p = Inr entry)"
  have "tool_call_step loads invoke str (tools_by_name self) c =
     (if tc_type c \<noteq> ''function''
      then Inl (Exception (''Unexpected tool_call.type='' @ tc_type c))
      else Inl (KeyError (function_name c)))"
    using assms(2) by (rule tool_call_step_unknown)
  then have "tool_call_step loads invoke str (tools_by_name self) c =
      Inl (KeyError (function_name c))"
    using a by simp
  then have "tool_calls_loop loads invoke str (tools_by_name self) (pre @ c # post) [] =
      Inl (KeyError (function_name c))"
    using a by (intro tool_calls_loop_first_failure) simp_all
  then show "handle_requires_action loads invoke str self run run_id =
      (Inl (KeyError (function_name c)), self)"
    using assms(1) by (simp add: handle_requires_action_Inl)
qed

text \<open>
  The amended claim at a batch of three calls whose second names an unknown tool.
\<close>

theorem unknown_tool_aborts_batch_witness:
  "handle_requires_action json_loads_sample (call_tool id) ToolOutcome_str sample_handler
     (sample_run unknown_tool_calls) ''run_1'' =
     (Inl (KeyError ''nonexistent_tool''), sample_handler)"
proof -
  let ?pre = "[function_call ''call_1'' ''fetch_current_temperature'' []]"
  let ?c = "function_call ''call_2'' ''nonexistent_tool'' []"
  let ?post = "[function_call ''call_3'' ''broken_tool'' []]"
  have d: "run_tool_calls (sample_run unknown_tool_calls) = ?pre @ ?c # ?post"
    by (simp add: sample_run_sel unknown_tool_calls_def)
  have u: "tools_by_name sample_handler (function_name ?c) = None"
    by (simp add: function_call_sel sample_tools)
  have k: "tc_type ?c = ''function'' \<and>
     (\<forall>p\<in>set ?pre. \<exists>entry. tool_call_step json_loads_sample (call_tool id) ToolOutcome_str
         (tools_by_name sample_handler) p = Inr entry)"
    by (simp add: function_call_sel sample_steps)
  have "handle_requires_action json_loads_sample (call_tool id) ToolOutcome_str sample_handler
     (sample_run unknown_tool_calls) ''run_1'' = (Inl (KeyError (function_name ?c)), sample_handler)"
    by (rule unknown_tool_aborts_batch [OF d u, THEN conjunct2, THEN mp, OF k])
  then show ?thesis by (simp add: function_call_sel)
qed

text \<open>
  Claim C6, as the specification states it, does not hold: a batch that contains a call
  of a kind other than "function" need not fail with the \<^verbatim>\<open>Exception\<close> of the kind
  check (the specification's ProtocolViolationError). An earlier call to an unknown tool
  raises first.
\<close>

theorem unexpected_call_kind_counterexample:
  "tc_type (unknown_then_other_kind_calls ! 1) = ''code_interpreter'' \<and>
   handle_requires_action json_loads_sample (call_tool id) ToolOutcome_str sample_handler
     (sample_run unknown_then_other_kind_calls) ''run_1'' =
     (Inl (KeyError ''nonexistent_tool''), sample_handler)"
proof -
  have "tool_call_step json_loads_sample (call_tool id) ToolOutcome_str
      (tools_by_name sample_handler) (function_call ''call_1'' ''nonexistent_tool'' []) =
      Inl (KeyError ''nonexistent_tool'')"
    by (simp add: tool_call_step_def function_call_sel sample_tools)
  then have "tool_calls_loop json_loads_sample (call_tool id) ToolOutcome_str
      (tools_by_name sample_handler) unknown_then_other_kind_calls [] =
      Inl (KeyError ''nonexistent_tool'')"
    by (simp add: unknown_then_other_kind_calls_def)
  then have "handle_requires_action json_loads_sample (call_tool id) ToolOutcome_str
      sample_handler (sample_run unknown_then_other_kind_calls) ''run_1'' =
      (Inl (KeyError ''nonexistent_tool''), sample_handler)"
    by (simp add: handle_requires_action_def sample_run_sel)
  moreover have "tc_type (unknown_then_other_kind_calls ! 1) = ''code_interpreter''"
    by (simp add: unknown_then_other_kind_calls_def other_call_sel)
  ultimately show ?thesis by simp
qed

text \<open>
  Claim C6, amended. A batch that contains a call whose kind is not "function" always
  fails, and the handler, with its client's log of submissions, is left as it was: no
  resume call is issued. The failure is the \<^verbatim>\<open>Exception\<close> with the message
  \<^verbatim>\<open>Unexpected tool_call.type=\<close> followed by the kind, when every call before it in
  the batch is processed without raising.
\<close>

theorem unexpected_call_kind_aborts_batch:
  assumes "run_tool_calls run = pre @ c # post"
    and "tc_type c \<noteq> ''function''"
  shows "(\<exists>e. handle_requires_action loads invoke str self run run_id = (Inl e, self)) \<and>
         ((\<forall>p\<in>set pre. \<exists>entry.
              tool_call_step loads invoke str (tools_by_name self) p = Inr entry) \<longrightarrow>
          handle_requires_action loads invoke str self run run_id =
            (Inl (Exception (''Unexpected tool_call.type='' @ tc_type c)), self))"
proof (intro conjI impI)
  have e: "tool_call_step loads invoke str (tools_by_name self) c =
      Inl (Exception (''Unexpected tool_call.type='' @ tc_type c))"
    using assms(2) by (rule tool_call_step_other_kind)
  have "c \<in> set (run_tool_calls run)" using assms(1) by simp
  from tool_calls_loop_some_failure [OF this e]
  obtain e' where
    "tool_calls_loop loads invoke str (tools_by_name self) (run_tool_calls run) [] = Inl e'" ..
  then have "handle_requires_action loads invoke str self run run_id = (Inl e', self)"
    by (rule handle_requires_action_Inl)
  then show "\<exists>e. handle_requires_action loads invoke str self run run_id = (Inl e, self)" ..
next
  assume a: "\<forall>p\<in>set pre. \<exists>entry.
      tool_call_step loads invoke str (tools_by_name self) p = Inr entry"
  have e: "tool_call_step loads invoke str (tools_by_name self) c =
      Inl (Exception (''Unexpected tool_call.type='' @ tc_type c))"
    using assms(2) by (rule tool_call_step_other_kind)
  have "tool_calls_loop loads invoke str (tools_by_name self) (pre @ c # post) [] =
      Inl (Exception (''Unexpected tool_call.type='' @ tc_type c))"
    using a e by (rule tool_calls_loop_first_failure)
  then show "handle_requires_action loads invoke str self run run_id =
      (Inl (Exception (''Unexpected tool_call.type='' @ tc_type c)), self)"
    using assms(1) by (simp add: handle_requires_action_Inl)
qed

text \<open>
  The amended claim at a batch of three calls whose second is of kind "code_interpreter".
\<close>

theorem unexpected_call_kind_aborts_batch_witness:
  "handle_requires_action json_loads_sample (call_tool id) ToolOutcome_str sample_handler
     (sample_run other_kind_calls) ''run_1'' =
     (Inl (Exception ''Unexpected tool_call.type=code_interpreter''), sample_handler)"
proof -
  let ?pre = "[function_call ''call_1'' ''fetch_current_temperature'' []]"
  let ?c = "other_call ''call_2'' ''code_interpreter''"
  let ?post = "[function_call ''call_3'' ''broken_tool'' []]"
  have d: "run_tool_calls (sample_run other_kind_calls) = ?pre @ ?c # ?post"
    by (simp add: sample_run_sel other_kind_calls_def)
  have u: "tc_type ?c \<noteq> ''function''"
    by (simp add: other_call_sel)
  have k: "\<forall>p\<in>set ?pre. \<exists>entry. tool_call_step json_loads_sample (call_tool id) ToolOutcome_str
         (tools_by_name sample_handler) p = Inr entry"
    by (simp add: sample_steps)
  have "handle_requires_action json_loads_sample (call_tool id) ToolOutcome_str sample_handler
     (sample_run other_kind_calls) ''run_1'' =
     (Inl (Exception (''Unexpected tool_call.type='' @ tc_type ?c)), sample_handler)"
    by (rule unexpected_call_kind_aborts_batch [OF d u, THEN conjunct2, THEN mp, OF k])
  then show ?thesis by (simp add: other_call_sel)
qed

text \<open>
  Claim C4. Processing a "requires action" batch ends in one of two ways. Either some
  call of the batch raised: then the handler is returned unchanged, so no resume call was
  made. Or the client's log of submissions has grown by exactly one call, whose outputs
  are, in order, the entries that the calls of the whole batch produced. Whenever the
  processing of any call of the batch raises, the log of submissions is unchanged: a
  partially built list of outputs is never submitted.
\<close>

theorem resume_once_after_whole_batch:
  "((\<exists>e. handle_requires_action loads invoke str self run run_id = (Inl e, self) \<and>
         (\<exists>c\<in>set (run_tool_calls run).
             tool_call_step loads invoke str (tools_by_name self) c = Inl e)) \<or>
    (\<exists>outs. handle_requires_action loads invoke str self run run_id =
         (Inr (), submit_tool_outputs self outs run_id) \<and>
       submit_calls (client (submit_tool_outputs self outs run_id)) =
         submit_calls (client self) @
           [\<lparr>sc_thread_id = run_thread_id (current_run self),
             sc_run_id = run_ident (current_run self),
             sc_tool_outputs = outs\<rparr>] \<and>
       list_all2 (\<lambda>c entry. tool_call_step loads invoke str (tools_by_name self) c = Inr entry)
         (run_tool_calls run) outs)) \<and>
   ((\<exists>c\<in>set (run_tool_calls run). \<exists>e.
        tool_call_step loads invoke str (tools_by_name self) c = Inl e) \<longrightarrow>
    (\<exists>e. handle_requires_action loads invoke str self run run_id = (Inl e, self)) \<and>
    submit_calls (client (snd (handle_requires_action loads invoke str self run run_id))) =
      submit_calls (client self))"
proof (intro conjI impI)
  show "(\<exists>e. handle_requires_action loads invoke str self run run_id = (Inl e, self) \<and>
         (\<exists>c\<in>set (run_tool_calls run).
             tool_call_step loads invoke str (tools_by_name self) c = Inl e)) \<or>
    (\<exists>outs. handle_requires_action loads invoke str self run run_id =
         (Inr (), submit_tool_outputs self outs run_id) \<and>
       submit_calls (client (submit_tool_outputs self outs run_id)) =
         submit_calls (client self) @
           [\<lparr>sc_thread_id = run_thread_id (current_run self),
             sc_run_id = run_ident (current_run self),
             sc_tool_outputs = outs\<rparr>] \<and>
       list_all2 (\<lambda>c entry. tool_call_step loads invoke str (tools_by_name self) c = Inr entry)
         (run_tool_calls run) outs)"
  proof (cases "tool_calls_loop loads invoke str (tools_by_name self) (run_tool_calls run) []")
    case (Inl e)
    then obtain pre c post where "run_tool_calls run = pre @ c # post"
      and "tool_call_step loads invoke str (tools_by_name self) c = Inl e"
      unfolding tool_calls_loop_Inl_iff by (elim exE conjE)
    then have "\<exists>c\<in>set (run_tool_calls run).
        tool_call_step loads invoke str (tools_by_name self) c = Inl e"
      by (intro bexI [of _ c]) simp_all
    then show ?thesis
      using handle_requires_action_Inl [OF Inl] by (intro disjI1 exI [of _ e]) simp
  next
    case (Inr outs)
    then have "list_all2
        (\<lambda>c entry. tool_call_step loads invoke str (tools_by_name self) c = Inr entry)
        (run_tool_calls run) outs"
      by (simp add: tool_calls_loop_Inr_iff)
    then show ?thesis
      using handle_requires_action_Inr [OF Inr] submit_tool_outputs_log
      by (intro disjI2 exI [of _ outs]) simp
  qed
next
  assume "\<exists>c\<in>set (run_tool_calls run). \<exists>e.
      tool_call_step loads invoke str (tools_by_name self) c = Inl e"
  then obtain c e where "c \<in> set (run_tool_calls run)"
    and "tool_call_step loads invoke str (tools_by_name self) c = Inl e"
    by (elim bexE exE)
  from tool_calls_loop_some_failure [OF this]
  obtain e' where
    "tool_calls_loop loads invoke str (tools_by_name self) (run_tool_calls run) [] = Inl e'" ..
  then have h: "handle_requires_action loads invoke str self run run_id = (Inl e', self)"
    by (rule handle_requires_action_Inl)
  then show "\<exists>e. handle_requires_action loads invoke str self run run_id = (Inl e, self)" ..
  show "submit_calls (client (snd (handle_requires_action loads invoke str self run run_id))) =
      submit_calls (client self)"
    by (simp add: h)
qed

text \<open>
  Claim C4 at a batch whose first call is processed and whose second has malformed
  arguments: nothing is submitted.
\<close>

theorem resume_once_after_whole_batch_witness:
  "submit_calls (client (snd (handle_requires_action json_loads_sample (call_tool id)
       ToolOutcome_str sample_handler (sample_run raising_then_malformed_calls) ''run_1''))) =
     submit_calls (client sample_handler)"
proof -
  let ?c = "function_call ''call_2'' ''fetch_current_temperature'' ''{bad''"
  have m: "?c \<in> set (run_tool_calls (sample_run raising_then_malformed_calls))"
    by (simp add: sample_run_sel raising_then_malformed_calls_def)
  have "tool_call_step json_loads_sample (call_tool id) ToolOutcome_str
      (tools_by_name sample_handler) ?c = Inl (Exception ''Failed to parse tool arguments: {bad'')"
    by (simp add: tool_call_step_def function_call_sel sample_tools sample_decode)
  then have "\<exists>e. tool_call_step json_loads_sample (call_tool id) ToolOutcome_str
      (tools_by_name sample_handler) ?c = Inl e" ..
  with m have k: "\<exists>c\<in>set (run_tool_calls (sample_run raising_then_malformed_calls)). \<exists>e.
      tool_call_step json_loads_sample (call_tool id) ToolOutcome_str
        (tools_by_name sample_handler) c = Inl e" ..
  show ?thesis
    by (rule resume_once_after_whole_batch [THEN conjunct2, THEN mp, OF k, THEN conjunct2])
qed

text \<open>
  Claim C5, as the specification states it, does not hold, on two counts. A non-empty
  payload that is no key/value object but is a JSON document, such as \<^verbatim>\<open>[1,2]\<close>,
  does not fail: it decodes to the list. And a payload on which \<^verbatim>\<open>json.loads\<close> raises
  something other than \<^verbatim>\<open>JSONDecodeError\<close>, such as an integer literal of 5000
  digits, does not fail with the \<^verbatim>\<open>Exception\<close> that carries the raw string (the
  specification's ArgumentDecodeError): the \<^verbatim>\<open>ValueError\<close> leaves the \<^verbatim>\<open>try\<close>
  block as it is.
\<close>

theorem malformed_arguments_counterexample:
  "decode_arguments json_loads_sample ''[1,2]'' = Inr (PList [PInt 1, PInt 2]) \<and>
   decode_arguments json_loads_sample (replicate 5000 (CHR ''1'')) =
     Inl (ValueError ''Exceeds the limit (4300 digits) for integer string conversion'')"
proof -
  have "decode_arguments json_loads_sample ''[1,2]'' = Inr (PList [PInt 1, PInt 2])"
    by (simp add: decode_arguments_def json_loads_sample_def)
  moreover have "list_all (\<lambda>c. c = CHR ''1'') (replicate 5000 (CHR ''1''))"
    by (simp add: list_all_iff)
  then have "json_loads_sample (replicate 5000 (CHR ''1'')) =
      Inl (ValueError ''Exceeds the limit (4300 digits) for integer string conversion'')"
    by (simp add: json_loads_sample_def)
  then have "decode_arguments json_loads_sample (replicate 5000 (CHR ''1'')) =
      Inl (ValueError ''Exceeds the limit (4300 digits) for integer string conversion'')"
    by (simp add: decode_arguments_def)
  ultimately show ?thesis by simp
qed

text \<open>
  Claim C5, amended. A non-empty argument string that \<^verbatim>\<open>json.loads\<close> rejects with
  \<^verbatim>\<open>JSONDecodeError\<close> makes decoding raise the \<^verbatim>\<open>Exception\<close> whose message is
  \<^verbatim>\<open>Failed to parse tool arguments: \<close> followed by the raw string (the specification's
  ArgumentDecodeError); decoding never yields an argument set for it, empty or other, and
  the step of the loop for a call of kind "function" to a known tool raises the same
  exception.
\<close>

theorem json_decode_error_is_wrapped:
  assumes "arguments \<noteq> []" and "loads arguments = Inl JSONDecodeError"
  shows "decode_arguments loads arguments =
           Inl (Exception (''Failed to parse tool arguments: '' @ arguments)) \<and>
         (\<forall>kw. decode_arguments loads arguments \<noteq> Inr kw) \<and>
         (tc_type c = ''function'' \<and> tools (function_name c) = Some tool \<and>
          function_arguments c = arguments \<longrightarrow>
          tool_call_step loads invoke str tools c =
            Inl (Exception (''Failed to parse tool arguments: '' @ arguments)))"
proof (intro conjI impI allI)
  show d: "decode_arguments loads arguments =
      Inl (Exception (''Failed to parse tool arguments: '' @ arguments))"
    using assms by (rule decode_arguments_malformed)
  show "decode_arguments loads arguments \<noteq> Inr kw" for kw
    by (simp add: d)
  assume a: "tc_type c = ''function'' \<and> tools (function_name c) = Some tool \<and>
    function_arguments c = arguments"
  then have "decode_arguments loads (function_arguments c) =
      Inl (Exception (''Failed to parse tool arguments: '' @ arguments))"
    using d by simp
  with a show "tool_call_step loads invoke str tools c =
      Inl (Exception (''Failed to parse tool arguments: '' @ arguments))"
    by (intro tool_call_step_undecoded) simp_all
qed

text \<open>The amended claim at the raw string \<^verbatim>\<open>{bad\<close>.\<close>

theorem json_decode_error_is_wrapped_witness:
  "decode_arguments json_loads_sample ''{bad'' =
     Inl (Exception ''Failed to parse tool arguments: {bad'')"
proof -
  have n: "''{bad'' \<noteq> []" by simp
  have l: "json_loads_sample ''{bad'' = Inl JSONDecodeError"
    by (simp add: json_loads_sample_def)
  have "decode_arguments json_loads_sample ''{bad'' =
     Inl (Exception (''Failed to parse tool arguments: '' @ ''{bad''))"
    by (rule json_decode_error_is_wrapped
        [where loads = json_loads_sample and arguments = "''{bad''", OF n l, THEN conjunct1])
  then show ?thesis by simp
qed

text \<open>
  Claim C9. The empty argument string decodes to the empty dictionary, whatever
  \<^verbatim>\<open>json.loads\<close> would do with it, and never to an error; a call of kind "function"
  to a known tool with empty arguments hands \<^verbatim>\<open>call_tool\<close> the empty dictionary, that
  is, no keyword arguments.
\<close>

theorem empty_arguments_decode_to_empty_dict:
  "decode_arguments loads [] = Inr (PDict []) \<and>
   (tc_type c = ''function'' \<and> tools (function_name c) = Some tool \<and>
    function_arguments c = [] \<longrightarrow>
    tool_call_step loads invoke str tools c =
      (case invoke tool (PDict []) of
         Inl e \<Rightarrow> Inl e
       | Inr r \<Rightarrow> Inr \<lparr>tool_call_id = tc_id c, output_str = str r\<rparr>))"
proof (intro conjI impI)
  show "decode_arguments loads [] = Inr (PDict [])"
    by (rule decode_arguments_empty)
  assume a: "tc_type c = ''function'' \<and> tools (function_name c) = Some tool \<and>
    function_arguments c = []"
  then have "decode_arguments loads (function_arguments c) = Inr (PDict [])"
    by (simp add: decode_arguments_empty)
  with a show "tool_call_step loads invoke str tools c =
      (case invoke tool (PDict []) of
         Inl e \<Rightarrow> Inl e
       | Inr r \<Rightarrow> Inr \<lparr>tool_call_id = tc_id c, output_str = str r\<rparr>)"
    by (intro tool_call_step_decoded) simp_all
qed

text \<open>
  Claim C9 at the specification's scenario A: a call to
  \<^verbatim>\<open>fetch_current_temperature\<close> with empty arguments, where \<^verbatim>\<open>json.loads\<close> itself
  would reject the empty string.
\<close>

theorem empty_arguments_decode_to_empty_dict_witness:
  "json_loads_sample [] = Inl JSONDecodeError \<and>
   tool_call_step json_loads_sample (call_tool id) ToolOutcome_str (tools_by_name sample_handler)
     (function_call ''call_1'' ''fetch_current_temperature'' []) =
     Inr \<lparr>tool_call_id = ''call_1'', output_str = ''32 degrees Celsius''\<rparr>"
proof -
  let ?c = "function_call ''call_1'' ''fetch_current_temperature'' []"
  have k: "tc_type ?c = ''function'' \<and>
      tools_by_name sample_handler (function_name ?c) = Some fetch_current_temperature \<and>
      function_arguments ?c = []"
    by (simp add: function_call_sel sample_tools)
  have "tool_call_step json_loads_sample (call_tool id) ToolOutcome_str
      (tools_by_name sample_handler) ?c =
      (case call_tool id fetch_current_temperature (PDict []) of
         Inl e \<Rightarrow> Inl e
       | Inr r \<Rightarrow> Inr \<lparr>tool_call_id = tc_id ?c, output_str = ToolOutcome_str r\<rparr>)"
    by (rule empty_arguments_decode_to_empty_dict
        [where tools = "tools_by_name sample_handler" and tool = fetch_current_temperature
           and c = "function_call ''call_1'' ''fetch_current_temperature'' []",
         THEN conjunct2, THEN mp, OF k])
  then show ?thesis
    by (simp add: sample_call_tool function_call_sel json_loads_sample_def)
qed

text \<open>
  Claim C10. Whatever value \<^verbatim>\<open>json.loads\<close> returns for a non-empty argument string,
  a key/value object or not (a number, a list, \<^verbatim>\<open>None\<close>), decoding accepts it without
  an error, and the step of the loop hands this very value to \<^verbatim>\<open>call_tool\<close> as the
  keyword arguments: a failure can only come from the invocation.
\<close>

theorem non_mapping_payload_accepted:
  assumes "arguments \<noteq> []" and "loads arguments = Inr v"
  shows "decode_arguments loads arguments = Inr v \<and>
         (tc_type c = ''function'' \<and> tools (function_name c) = Some tool \<and>
          function_arguments c = arguments \<longrightarrow>
          tool_call_step loads invoke str tools c =
            (case invoke tool v of
               Inl e \<Rightarrow> Inl e
             | Inr r \<Rightarrow> Inr \<lparr>tool_call_id = tc_id c, output_str = str r\<rparr>))"
proof (intro conjI impI)
  show d: "decode_arguments loads arguments = Inr v"
    using assms by (rule decode_arguments_parsed)
  assume a: "tc_type c = ''function'' \<and> tools (function_name c) = Some tool \<and>
    function_arguments c = arguments"
  then have "decode_arguments loads (function_arguments c) = Inr v"
    using d by simp
  with a show "tool_call_step loads invoke str tools c =
      (case invoke tool v of
         Inl e \<Rightarrow> Inl e
       | Inr r \<Rightarrow> Inr \<lparr>tool_call_id = tc_id c, output_str = str r\<rparr>)"
    by (intro tool_call_step_decoded) simp_all
qed

text \<open>
  Claim C10 at the argument string \<^verbatim>\<open>5\<close>: it decodes to the number 5, which reaches
  the invocation, and the exception is the one raised there.
\<close>

theorem non_mapping_payload_accepted_witness:
  "decode_arguments json_loads_sample ''5'' = Inr (PInt 5) \<and>
   tool_call_step json_loads_sample call_tool_uncaught id (tools_by_name sample_handler)
     (function_call ''call_1'' ''broken_tool'' ''5'') = Inl (ToolRaised ''upstream unavailable'')"
proof -
  let ?c = "function_call ''call_1'' ''broken_tool'' ''5''"
  have n: "''5'' \<noteq> []" by simp
  have l: "json_loads_sample ''5'' = Inr (PInt 5)" by (simp add: json_loads_sample_def)
  have k: "tc_type ?c = ''function'' \<and>
      tools_by_name sample_handler (function_name ?c) = Some broken_tool \<and>
      function_arguments ?c = ''5''"
    by (simp add: function_call_sel sample_tools)
  have "tool_call_step json_loads_sample call_tool_uncaught id (tools_by_name sample_handler) ?c =
      (case call_tool_uncaught broken_tool (PInt 5) of
         Inl e \<Rightarrow> Inl e
       | Inr r \<Rightarrow> Inr \<lparr>tool_call_id = tc_id ?c, output_str = id r\<rparr>)"
    by (rule non_mapping_payload_accepted
        [where loads = json_loads_sample and arguments = "''5''"
           and tools = "tools_by_name sample_handler" and tool = broken_tool
           and c = "function_call ''call_1'' ''broken_tool'' ''5''",
         OF n l, THEN conjunct2, THEN mp, OF k])
  then have "tool_call_step json_loads_sample call_tool_uncaught id
      (tools_by_name sample_handler) ?c = Inl (ToolRaised ''upstream unavailable'')"
    by (simp add: call_tool_uncaught_def broken_tool_def)
  moreover have "decode_arguments json_loads_sample ''5'' = Inr (PInt 5)"
    by (rule non_mapping_payload_accepted
        [where loads = json_loads_sample and arguments = "''5''", OF n l, THEN conjunct1])
  ultimately show ?thesis by simp
qed

text \<open>
  Claim C7, as the specification states it, does not hold: the handler drops no field.
  With a stand-in for \<^verbatim>\<open>call_tool\<close> that reports the names of the keyword arguments
  it receives, a call to \<^verbatim>\<open>fetch_current_temperature\<close>, whose schema declares only
  \<^verbatim>\<open>location\<close>, hands over the undeclared field \<^verbatim>\<open>unit\<close> as well.
\<close>

theorem extra_fields_dropped_counterexample:
  \<open>tools_by_name sample_handler ''fetch_current_temperature'' = Some fetch_current_temperature \<and>
   map param_name (args_schema fetch_current_temperature) = [''location''] \<and>
   tool_call_step json_loads_sample call_tool_echo kwargs_names (tools_by_name sample_handler)
     (function_call ''call_1'' ''fetch_current_temperature''
        ''{"location": "Recife", "unit": "C"}'') =
     Inr \<lparr>tool_call_id = ''call_1'', output_str = ''location;unit;''\<rparr>\<close>
proof -
  have "map param_name (args_schema fetch_current_temperature) = [''location'']"
    by (simp add: fetch_current_temperature_def)
  moreover have \<open>tool_call_step json_loads_sample call_tool_echo kwargs_names
     (tools_by_name sample_handler)
     (function_call ''call_1'' ''fetch_current_temperature''
        ''{"location": "Recife", "unit": "C"}'') =
     Inr \<lparr>tool_call_id = ''call_1'', output_str = ''location;unit;''\<rparr>\<close>
    by (simp add: tool_call_step_def function_call_sel sample_tools sample_decode
        call_tool_echo_def)
  ultimately show ?thesis by (simp add: sample_tools)
qed

text \<open>
  Claim C7, amended. For a call of kind "function" to a known tool whose argument payload
  parses to a key/value object, the handler hands the whole parsed object to
  \<^verbatim>\<open>call_tool\<close>, with every field, declared by the tool's schema or not: decoding
  returns the object as parsed, the step of the loop passes it on unchanged, and this is
  so whatever the schema of the tool is. The handler never consults the schema, so it
  raises no error on account of an extra field.
\<close>

theorem parsed_payload_passed_unchanged:
  assumes "tc_type c = ''function''"
    and "tools (function_name c) = Some tool"
    and "function_arguments c \<noteq> []"
    and "loads (function_arguments c) = Inr (PDict kvs)"
  shows "decode_arguments loads (function_arguments c) = Inr (PDict kvs) \<and>
         tool_call_step loads invoke str tools c =
           (case invoke tool (PDict kvs) of
              Inl e \<Rightarrow> Inl e
            | Inr r \<Rightarrow> Inr \<lparr>tool_call_id = tc_id c, output_str = str r\<rparr>) \<and>
         tool_call_step loads invoke str
             (tools(function_name c \<mapsto> tool\<lparr>args_schema := schema\<rparr>)) c =
           (case invoke (tool\<lparr>args_schema := schema\<rparr>) (PDict kvs) of
              Inl e \<Rightarrow> Inl e
            | Inr r \<Rightarrow> Inr \<lparr>tool_call_id = tc_id c, output_str = str r\<rparr>)"
proof (intro conjI)
  show d: "decode_arguments loads (function_arguments c) = Inr (PDict kvs)"
    using assms(3,4) by (rule decode_arguments_parsed)
  show "tool_call_step loads invoke str tools c =
      (case invoke tool (PDict kvs) of
         Inl e \<Rightarrow> Inl e
       | Inr r \<Rightarrow> Inr \<lparr>tool_call_id = tc_id c, output_str = str r\<rparr>)"
    using assms(1,2) d by (rule tool_call_step_decoded)
  have "(tools(function_name c \<mapsto> tool\<lparr>args_schema := schema\<rparr>)) (function_name c) =
      Some (tool\<lparr>args_schema := schema\<rparr>)"
    by simp
  with assms(1) show "tool_call_step loads invoke str
        (tools(function_name c \<mapsto> tool\<lparr>args_schema := schema\<rparr>)) c =
      (case invoke (tool\<lparr>args_schema := schema\<rparr>) (PDict kvs) of
         Inl e \<Rightarrow> Inl e
       | Inr r \<Rightarrow> Inr \<lparr>tool_call_id = tc_id c, output_str = str r\<rparr>)"
    using d by (rule tool_call_step_decoded)
qed

text \<open>The amended claim at a payload with the undeclared field \<^verbatim>\<open>unit\<close>.\<close>

theorem parsed_payload_passed_unchanged_witness:
  \<open>decode_arguments json_loads_sample ''{"location": "Recife", "unit": "C"}'' =
     Inr (PDict [(''location'', PStr ''Recife''), (''unit'', PStr ''C'')])\<close>
proof -
  let ?c = \<open>function_call ''call_1'' ''fetch_current_temperature''
      ''{"location": "Recife", "unit": "C"}''\<close>
  have t: "tc_type ?c = ''function''"
    by (simp add: function_call_sel)
  have r: "tools_by_name sample_handler (function_name ?c) = Some fetch_current_temperature"
    by (simp add: function_call_sel sample_tools)
  have n: "function_arguments ?c \<noteq> []"
    by (simp add: function_call_sel)
  have l: "json_loads_sample (function_arguments ?c) =
      Inr (PDict [(''location'', PStr ''Recife''), (''unit'', PStr ''C'')])"
    by (simp add: function_call_sel json_loads_sample_def)
  have "decode_arguments json_loads_sample (function_arguments ?c) =
      Inr (PDict [(''location'', PStr ''Recife''), (''unit'', PStr ''C'')])"
    by (rule parsed_payload_passed_unchanged
        [where tools = "tools_by_name sample_handler" and loads = json_loads_sample
           and tool = fetch_current_temperature,
         OF t r n l, THEN conjunct1])
  then show ?thesis by (simp add: function_call_sel)
qed

text \<open>
  Claim C8, as the specification states it, does not hold: a list with two tools of the
  same name builds a registry, which holds the second of them.
\<close>

theorem duplicate_tool_name_counterexample:
  "metadata_name fetch_current_temperature_again = metadata_name fetch_current_temperature \<and>
   fetch_current_temperature_again \<noteq> fetch_current_temperature \<and>
   tools_by_name
     (EventHandler_init \<lparr>submit_calls = []\<rparr>
        [fetch_current_temperature, fetch_current_temperature_again] (sample_run []))
     ''fetch_current_temperature'' = Some fetch_current_temperature_again"
proof -
  have "args_schema fetch_current_temperature_again \<noteq> args_schema fetch_current_temperature"
    by (simp add: fetch_current_temperature_again_def fetch_current_temperature_def)
  then have "fetch_current_temperature_again \<noteq> fetch_current_temperature"
    by (rule contrapos_nn) simp
  moreover have "metadata_name fetch_current_temperature_again =
      metadata_name fetch_current_temperature"
    by (simp add: fetch_current_temperature_again_def fetch_current_temperature_def)
  moreover have "tools_by_name
     (EventHandler_init \<lparr>submit_calls = []\<rparr>
        [fetch_current_temperature, fetch_current_temperature_again] (sample_run []))
     ''fetch_current_temperature'' = Some fetch_current_temperature_again"
    by (simp add: EventHandler_init_def tools_dict_def fetch_current_temperature_again_def
        fetch_current_temperature_def)
  ultimately show ?thesis by simp
qed

text \<open>
  Claim C8, amended. Building the registry from a list of tools never fails; a name is
  mapped to the last tool of the list that carries it, so of several tools with one name
  the later one silently replaces the earlier ones.
\<close>

theorem registry_keeps_last_tool_of_a_name:
  "tools_by_name (EventHandler_init c tools r) name =
     find (\<lambda>tool. metadata_name tool = name) (rev tools)"
  by (simp add: EventHandler_init_def tools_dict_lookup)

text \<open>
  Claim C2. The handler itself has no \<^verbatim>\<open>try\<close> around \<^verbatim>\<open>call_tool\<close> (an exception
  that escapes it ends the batch, see \<open>escaping_exception_aborts_batch\<close>), so the claim
  rests on \<^verbatim>\<open>call_tool\<close> as the specification describes it. With that invoker, a call
  whose tool function raises yields a failure outcome of kind ToolExecutionError carrying
  the exception's message; the step of the loop turns it into that call's output string
  and does not raise; the loop over a batch that contains the call fails or succeeds as
  its sibling calls alone decide, and when they all produce an entry the submission holds
  the entries of the siblings before, the failure message of the call, and the entries of
  the siblings after.
\<close>

theorem tool_exception_becomes_output:
  assumes "tc_type c = ''function''"
    and "tools_by_name self (function_name c) = Some tool"
    and "decode_arguments loads (function_arguments c) = Inr kw"
    and "fn tool kw = Inl message"
  shows "call_tool display tool kw = Inr (Failure ToolExecutionError message) \<and>
         tool_call_step loads (call_tool display) ToolOutcome_str (tools_by_name self) c =
           Inr \<lparr>tool_call_id = tc_id c, output_str = message\<rparr> \<and>
         tool_calls_loop loads (call_tool display) ToolOutcome_str (tools_by_name self)
             (pre @ c # post) [] =
           (case tool_calls_loop loads (call_tool display) ToolOutcome_str (tools_by_name self)
                   pre [] of
              Inl e \<Rightarrow> Inl e
            | Inr outs1 \<Rightarrow>
                (case tool_calls_loop loads (call_tool display) ToolOutcome_str
                        (tools_by_name self) post [] of
                   Inl e \<Rightarrow> Inl e
                 | Inr outs2 \<Rightarrow>
                     Inr (outs1 @ \<lparr>tool_call_id = tc_id c, output_str = message\<rparr> # outs2))) \<and>
         (run_tool_calls run = pre @ c # post \<and>
          (\<forall>s\<in>set (pre @ post). \<exists>entry.
              tool_call_step loads (call_tool display) ToolOutcome_str (tools_by_name self) s =
                Inr entry) \<longrightarrow>
          (\<exists>outs1 outs2.
              handle_requires_action loads (call_tool display) ToolOutcome_str self run run_id =
                (Inr (), submit_tool_outputs self
                   (outs1 @ \<lparr>tool_call_id = tc_id c, output_str = message\<rparr> # outs2) run_id) \<and>
              length outs1 = length pre \<and> length outs2 = length post))"
proof (intro conjI impI)
  let ?L = "tool_calls_loop loads (call_tool display) ToolOutcome_str (tools_by_name self)"
  let ?entry = "\<lparr>tool_call_id = tc_id c, output_str = message\<rparr>"
  show i: "call_tool display tool kw = Inr (Failure ToolExecutionError message)"
    using assms(4) by (rule call_tool_raising)
  show s: "tool_call_step loads (call_tool display) ToolOutcome_str (tools_by_name self) c =
      Inr ?entry"
    using tool_call_step_decoded
        [where T = "tools_by_name self" and C = "call_tool display" and S = ToolOutcome_str,
         OF assms(1,2,3)] i
    by simp
  have one: "?L (c # post) [] =
      (case ?L post [] of Inl e \<Rightarrow> Inl e | Inr outs2 \<Rightarrow> Inr (?entry # outs2))"
    unfolding tool_calls_loop_Cons s by simp
  show dec: "?L (pre @ c # post) [] =
      (case ?L pre [] of
         Inl e \<Rightarrow> Inl e
       | Inr outs1 \<Rightarrow>
           (case ?L post [] of
              Inl e \<Rightarrow> Inl e
            | Inr outs2 \<Rightarrow> Inr (outs1 @ ?entry # outs2)))"
    unfolding tool_calls_loop_append one by (simp split: sum.splits)
  assume a: "run_tool_calls run = pre @ c # post \<and>
    (\<forall>s\<in>set (pre @ post). \<exists>entry.
        tool_call_step loads (call_tool display) ToolOutcome_str (tools_by_name self) s =
          Inr entry)"
  then have "\<forall>s\<in>set pre. \<exists>entry.
      tool_call_step loads (call_tool display) ToolOutcome_str (tools_by_name self) s = Inr entry"
    by simp
  then obtain outs1 where o1: "?L pre [] = Inr outs1"
    using tool_calls_loop_total by blast
  from a have "\<forall>s\<in>set post. \<exists>entry.
      tool_call_step loads (call_tool display) ToolOutcome_str (tools_by_name self) s = Inr entry"
    by simp
  then obtain outs2 where o2: "?L post [] = Inr outs2"
    using tool_calls_loop_total by blast
  have l1: "length outs1 = length pre"
    using tool_calls_loop_ids [OF o1] by (metis length_map)
  have l2: "length outs2 = length post"
    using tool_calls_loop_ids [OF o2] by (metis length_map)
  have "?L (run_tool_calls run) [] = Inr (outs1 @ ?entry # outs2)"
    using a dec o1 o2 by simp
  then have "handle_requires_action loads (call_tool display) ToolOutcome_str self run run_id =
      (Inr (), submit_tool_outputs self (outs1 @ ?entry # outs2) run_id)"
    by (rule handle_requires_action_Inr)
  with l1 l2 show "\<exists>outs1 outs2.
      handle_requires_action loads (call_tool display) ToolOutcome_str self run run_id =
        (Inr (), submit_tool_outputs self (outs1 @ ?entry # outs2) run_id) \<and>
      length outs1 = length pre \<and> length outs2 = length post"
    by (intro exI [of _ outs1] exI [of _ outs2]) simp
qed

text \<open>
  Claim C2 at the specification's scenario C: a batch of one call whose tool returns and
  one whose tool raises is submitted once, with both entries.
\<close>

theorem tool_exception_becomes_output_witness:
  "tool_calls_loop json_loads_sample (call_tool id) ToolOutcome_str (tools_by_name sample_handler)
     scenario_c_calls [] =
     Inr [\<lparr>tool_call_id = ''call_1'', output_str = ''32 degrees Celsius''\<rparr>,
          \<lparr>tool_call_id = ''call_2'', output_str = ''upstream unavailable''\<rparr>] \<and>
   submit_calls (client (snd (handle_requires_action json_loads_sample (call_tool id)
       ToolOutcome_str sample_handler (sample_run scenario_c_calls) ''run_1''))) =
     [\<lparr>sc_thread_id = ''thread_1'', sc_run_id = ''run_1'',
       sc_tool_outputs =
         [\<lparr>tool_call_id = ''call_1'', output_str = ''32 degrees Celsius''\<rparr>,
          \<lparr>tool_call_id = ''call_2'', output_str = ''upstream unavailable''\<rparr>]\<rparr>]"
proof -
  let ?L = "tool_calls_loop json_loads_sample (call_tool id) ToolOutcome_str
      (tools_by_name sample_handler)"
  let ?c = "function_call ''call_2'' ''broken_tool'' []"
  have t: "tc_type ?c = ''function''"
    by (simp add: function_call_sel)
  have r: "tools_by_name sample_handler (function_name ?c) = Some broken_tool"
    by (simp add: function_call_sel sample_tools)
  have d: "decode_arguments json_loads_sample (function_arguments ?c) = Inr (PDict [])"
    by (simp add: function_call_sel sample_decode)
  have f: "fn broken_tool (PDict []) = Inl ''upstream unavailable''"
    by (simp add: broken_tool_def)
  have pre: \<open>?L [function_call ''call_1'' ''fetch_current_temperature''
      ''{"location": "Recife"}''] [] =
      Inr [\<lparr>tool_call_id = ''call_1'', output_str = ''32 degrees Celsius''\<rparr>]\<close>
    by (simp add: sample_steps)
  have post: "?L [] [] = Inr []"
    by simp
  have \<open>?L ([function_call ''call_1'' ''fetch_current_temperature''
        ''{"location": "Recife"}''] @ ?c # []) [] =
      (case ?L [function_call ''call_1'' ''fetch_current_temperature''
              ''{"location": "Recife"}''] [] of
         Inl e \<Rightarrow> Inl e
       | Inr outs1 \<Rightarrow>
           (case ?L [] [] of
              Inl e \<Rightarrow> Inl e
            | Inr outs2 \<Rightarrow>
                Inr (outs1 @ \<lparr>tool_call_id = tc_id ?c,
                             output_str = ''upstream unavailable''\<rparr> # outs2)))\<close>
    by (rule tool_exception_becomes_output
        [where self = sample_handler and loads = json_loads_sample and tool = broken_tool,
         OF t r d f, THEN conjunct2, THEN conjunct2, THEN conjunct1])
  then have l: "?L scenario_c_calls [] =
      Inr [\<lparr>tool_call_id = ''call_1'', output_str = ''32 degrees Celsius''\<rparr>,
           \<lparr>tool_call_id = ''call_2'', output_str = ''upstream unavailable''\<rparr>]"
    unfolding pre post by (simp add: scenario_c_calls_def function_call_sel)
  then have "?L (run_tool_calls (sample_run scenario_c_calls)) [] =
      Inr [\<lparr>tool_call_id = ''call_1'', output_str = ''32 degrees Celsius''\<rparr>,
           \<lparr>tool_call_id = ''call_2'', output_str = ''upstream unavailable''\<rparr>]"
    by (simp add: sample_run_sel)
  then have "handle_requires_action json_loads_sample (call_tool id) ToolOutcome_str
      sample_handler (sample_run scenario_c_calls) ''run_1'' =
      (Inr (), submit_tool_outputs sample_handler
         [\<lparr>tool_call_id = ''call_1'', output_str = ''32 degrees Celsius''\<rparr>,
          \<lparr>tool_call_id = ''call_2'', output_str = ''upstream unavailable''\<rparr>] ''run_1'')"
    by (rule handle_requires_action_Inr)
  then have "submit_calls (client (snd (handle_requires_action json_loads_sample (call_tool id)
       ToolOutcome_str sample_handler (sample_run scenario_c_calls) ''run_1''))) =
     [\<lparr>sc_thread_id = ''thread_1'', sc_run_id = ''run_1'',
       sc_tool_outputs =
         [\<lparr>tool_call_id = ''call_1'', output_str = ''32 degrees Celsius''\<rparr>,
          \<lparr>tool_call_id = ''call_2'', output_str = ''upstream unavailable''\<rparr>]\<rparr>]"
    by (simp add: submit_tool_outputs_log sample_handler_def EventHandler_init_def
        sample_run_def)
  with l show ?thesis by simp
qed

end
